theory Spec2Isabelle
  imports Main
begin

section \<open>Python values, exceptions and JSON\<close>

text \<open>
  Every exception the modelled code can raise is a value of \<open>error\<close>; a function that may
  raise returns \<open>error + 'a\<close>, with \<open>Inl\<close> for the exception. \<open>UnsupportedDataType\<close> is the
  error the device facade raises for a data type outside its declared list.
\<close>

datatype error =
    KeyError string
  | TypeError
  | ValueError
  | AttributeError string
  | AssertionError string
  | OverflowError
  | UnsupportedDataType string
  | ExternalError string

definition and_then :: "'e + 'a \<Rightarrow> ('a \<Rightarrow> 'e + 'b) \<Rightarrow> 'e + 'b" where
  "and_then m f = (case m of Inl e \<Rightarrow> Inl e | Inr x \<Rightarrow> f x)"

text \<open>
  A collaborator outside the modelled code is a parameter that answers with a value or
  with a message; the message becomes an \<open>ExternalError\<close>.
\<close>

definition external :: "string + 'a \<Rightarrow> error + 'a" where
  "external r = (case r of Inl msg \<Rightarrow> Inl (ExternalError msg) | Inr v \<Rightarrow> Inr v)"

text \<open>The values a device's parameter dictionaries hold: dates are strings, the seed an integer.\<close>

datatype pyval = PNone | PInt int | PStr string

text \<open>\<open>d[k]\<close> on a Python dict: KeyError when the key is absent.\<close>

definition getitem :: "(string \<rightharpoonup> 'v) \<Rightarrow> string \<Rightarrow> error + 'v" where
  "getitem d k = (case d k of None \<Rightarrow> Inl (KeyError k) | Some v \<Rightarrow> Inr v)"

text \<open>A decoded JSON document; an object keeps its items as an association list.\<close>

datatype json =
    JNull
  | JBool bool
  | JNum int
  | JStr string
  | JArr "json list"
  | JObj "(string \<times> json) list"

text \<open>\<open>j[k]\<close> with a string key: a lookup on an object, TypeError on anything else.\<close>

fun subscript :: "json \<Rightarrow> string \<Rightarrow> error + json" where
  "subscript (JObj items) k = (case map_of items k of None \<Rightarrow> Inl (KeyError k) | Some v \<Rightarrow> Inr v)"
| "subscript _ k = Inl TypeError"

section \<open>Dates and times of the standard library\<close>

text \<open>
  The calendar arithmetic of Python's \<open>datetime\<close> module (the proleptic Gregorian
  ordinal: day 1 is 0001-01-01, day 3652059 is 9999-12-31) and the two \<open>strptime\<close>
  formats the code uses. A naive datetime is the number of microseconds since
  0001-01-01T00:00:00; strings are ASCII.
\<close>

definition is_leap :: "int \<Rightarrow> bool" where
  "is_leap year = (year mod 4 = 0 \<and> (year mod 400 = 0 \<or> year mod 100 \<noteq> 0))"

definition days_before_year :: "int \<Rightarrow> int" where
  "days_before_year year = (let y = year - 1 in y * 365 + y div 4 - y div 100 + y div 400)"

definition days_in_month :: "int \<Rightarrow> int \<Rightarrow> int" where
  "days_in_month year month =
     (if month = 2 \<and> is_leap year then 29
      else [31, 28, 31, 30, 31, 30, 31, 31, 30, 31, 30, 31] ! nat (month - 1))"

definition days_before_month :: "int \<Rightarrow> int \<Rightarrow> int" where
  "days_before_month year month =
     [0, 31, 59, 90, 120, 151, 181, 212, 243, 273, 304, 334] ! nat (month - 1)
       + (if month > 2 \<and> is_leap year then 1 else 0)"

definition ymd2ord :: "int \<Rightarrow> int \<Rightarrow> int \<Rightarrow> int" where
  "ymd2ord year month day = days_before_year year + days_before_month year month + day"

text \<open>\<open>_ord2ymd\<close>: the year, month and day of an ordinal.\<close>

definition ord2ymd :: "int \<Rightarrow> int \<times> int \<times> int" where
  "ord2ymd ordinal =
     (let n = ordinal - 1;
          n400 = n div 146097; n = n mod 146097;
          n100 = n div 36524; n = n mod 36524;
          n4 = n div 1461; n = n mod 1461;
          n1 = n div 365; n = n mod 365;
          year = n400 * 400 + 1 + n100 * 100 + n4 * 4 + n1
      in if n1 = 4 \<or> n100 = 4 then (year - 1, 12, 31)
         else
           (let leapyear = (n1 = 3 \<and> (n100 = 3 \<or> n4 \<noteq> 24));
                month = (n + 50) div 32;
                preceding = days_before_month (if leapyear then 4 else 1) month
            in if preceding > n
               then (year, month - 1,
                     n - (preceding - days_in_month (if leapyear then 4 else 1) (month - 1)) + 1)
               else (year, month, n - preceding + 1)))"

type_synonym datetime = int

definition usec_per_day :: int where
  "usec_per_day = 86400000000"

definition MAXORDINAL :: int where
  "MAXORDINAL = 3652059"

text \<open>
  \<open>datetime(year, month, day, hour, minute, second)\<close>: ValueError outside the ranges of
  the constructor.
\<close>

definition mk_datetime :: "int \<Rightarrow> int \<Rightarrow> int \<Rightarrow> int \<Rightarrow> int \<Rightarrow> int \<Rightarrow> error + datetime" where
  "mk_datetime year month day hour minute second =
     (if 1 \<le> year \<and> year \<le> 9999 \<and> 1 \<le> month \<and> month \<le> 12
         \<and> 1 \<le> day \<and> day \<le> days_in_month year month
         \<and> 0 \<le> hour \<and> hour \<le> 23 \<and> 0 \<le> minute \<and> minute \<le> 59 \<and> 0 \<le> second \<and> second \<le> 59
      then Inr ((ymd2ord year month day - 1) * usec_per_day
                + (hour * 3600 + minute * 60 + second) * 1000000)
      else Inl ValueError)"

text \<open>\<open>(a - b).days\<close>: a timedelta is normalised, so its days are the floor.\<close>

definition timedelta_days :: "datetime \<Rightarrow> datetime \<Rightarrow> int" where
  "timedelta_days a b = (a - b) div usec_per_day"

text \<open>\<open>t + timedelta(days=k)\<close>: OverflowError when the day leaves 1..MAXORDINAL.\<close>

definition add_days :: "datetime \<Rightarrow> int \<Rightarrow> error + datetime" where
  "add_days t k =
     (let r = t + k * usec_per_day
      in if 0 \<le> r \<and> r < MAXORDINAL * usec_per_day then Inr r else Inl OverflowError)"

definition is_digit :: "char \<Rightarrow> bool" where
  "is_digit c = (48 \<le> (of_char c :: nat) \<and> (of_char c :: nat) \<le> 57)"

definition digit_val :: "char \<Rightarrow> int" where
  "digit_val c = int (of_char c) - 48"

text \<open>
  A numeric field of a \<open>strptime\<close> pattern, as its regular expression reads it: two
  digits with a value in \<open>lo2..hi2\<close>, or one digit from \<open>lo1\<close> up. \<open>%m\<close> is
  \<open>1[0-2]|0[1-9]|[1-9]\<close>, \<open>%H\<close> is \<open>2[0-3]|[0-1]\d|\d\<close>, \<open>%M\<close> is \<open>[0-5]\d|\d\<close>, \<open>%S\<close> is
  \<open>6[0-1]|[0-5]\d|\d\<close>; \<open>%d\<close> is \<open>3[0-1]|[1-2]\d|0[1-9]|[1-9]| [1-9]\<close>, with a space
  allowed before a single digit.
\<close>

fun num_field :: "int \<Rightarrow> int \<Rightarrow> int \<Rightarrow> string \<Rightarrow> int option" where
  "num_field lo2 hi2 lo1 [a] =
     (if is_digit a \<and> lo1 \<le> digit_val a then Some (digit_val a) else None)"
| "num_field lo2 hi2 lo1 [a, b] =
     (if is_digit a \<and> is_digit b \<and> lo2 \<le> 10 * digit_val a + digit_val b
         \<and> 10 * digit_val a + digit_val b \<le> hi2
      then Some (10 * digit_val a + digit_val b) else None)"
| "num_field lo2 hi2 lo1 s = None"

definition month_field :: "string \<Rightarrow> int option" where
  "month_field s = num_field 1 12 1 s"

definition day_field :: "string \<Rightarrow> int option" where
  "day_field s =
     (case s of
        [a, b] \<Rightarrow> if a = CHR '' '' then num_field 1 31 1 [b] else num_field 1 31 1 [a, b]
      | _ \<Rightarrow> num_field 1 31 1 s)"

fun year_field :: "string \<Rightarrow> int option" where
  "year_field [a, b, c, d] =
     (if is_digit a \<and> is_digit b \<and> is_digit c \<and> is_digit d
      then Some (1000 * digit_val a + 100 * digit_val b + 10 * digit_val c + digit_val d)
      else None)"
| "year_field s = None"

text \<open>The text before the first character satisfying \<open>p\<close>, and the text after it.\<close>

definition split_at :: "(char \<Rightarrow> bool) \<Rightarrow> string \<Rightarrow> (string \<times> string) option" where
  "split_at p s =
     (case dropWhile (\<lambda>c. \<not> p c) s of
        [] \<Rightarrow> None
      | c # rest \<Rightarrow> Some (takeWhile (\<lambda>c. \<not> p c) s, rest))"

definition opt_then :: "'a option \<Rightarrow> ('a \<Rightarrow> error + 'b) \<Rightarrow> error + 'b" where
  "opt_then m f = (case m of None \<Rightarrow> Inl ValueError | Some x \<Rightarrow> f x)"

text \<open>
  \<open>datetime.strptime(s, "%Y-%m-%d")\<close>: the whole string has to match; the fields then go
  through the constructor.
\<close>

definition strptime_date :: "string \<Rightarrow> error + datetime" where
  "strptime_date s =
     opt_then (year_field (take 4 s)) (\<lambda>year.
     opt_then (split_at (\<lambda>c. c = CHR ''-'') (drop 4 s)) (\<lambda>(e, s1).
     if e \<noteq> [] then Inl ValueError else
     opt_then (split_at (\<lambda>c. c = CHR ''-'') s1) (\<lambda>(m, d).
     opt_then (month_field m) (\<lambda>month.
     opt_then (day_field d) (\<lambda>day.
       mk_datetime year month day 0 0 0)))))"

text \<open>
  \<open>datetime.strptime(s, "%Y-%m-%dT%H:%M:%S")\<close>. The pattern is matched ignoring case, so
  the literal \<open>T\<close> also matches \<open>t\<close>.
\<close>

definition strptime_datetime :: "string \<Rightarrow> error + datetime" where
  "strptime_datetime s =
     opt_then (year_field (take 4 s)) (\<lambda>year.
     opt_then (split_at (\<lambda>c. c = CHR ''-'') (drop 4 s)) (\<lambda>(e, s1).
     if e \<noteq> [] then Inl ValueError else
     opt_then (split_at (\<lambda>c. c = CHR ''-'') s1) (\<lambda>(m, s2).
     opt_then (month_field m) (\<lambda>month.
     opt_then (split_at (\<lambda>c. c = CHR ''T'' \<or> c = CHR ''t'') s2) (\<lambda>(d, s3).
     opt_then (day_field d) (\<lambda>day.
     opt_then (split_at (\<lambda>c. c = CHR '':'') s3) (\<lambda>(h, s4).
     opt_then (num_field 0 23 0 h) (\<lambda>hour.
     opt_then (split_at (\<lambda>c. c = CHR '':'') s4) (\<lambda>(mi, se).
     opt_then (num_field 0 59 0 mi) (\<lambda>minute.
     opt_then (num_field 0 61 0 se) (\<lambda>second.
       mk_datetime year month day hour minute second)))))))))))"

definition digits2 :: "int \<Rightarrow> string" where
  "digits2 n = [''0123456789'' ! nat (n div 10 mod 10), ''0123456789'' ! nat (n mod 10)]"

definition digits4 :: "int \<Rightarrow> string" where
  "digits4 n = digits2 (n div 100) @ digits2 (n mod 100)"

text \<open>
  \<open>t.strftime("%Y-%m-%dT%H:%M:%S.000Z")\<close>. The year is written as the C library of Linux
  writes \<open>%Y\<close>: its digits without padding, so a year below 1000 has fewer than four.
\<close>

definition year_digits :: "int \<Rightarrow> string" where
  "year_digits year = dropWhile (\<lambda>c. c = CHR ''0'') (digits4 year)"

definition strftime_z :: "datetime \<Rightarrow> string" where
  "strftime_z t =
     (case ord2ymd (t div usec_per_day + 1) of (year, month, day) \<Rightarrow>
        (let secs = (t mod usec_per_day) div 1000000
         in year_digits year @ ''-'' @ digits2 month @ ''-'' @ digits2 day @ ''T''
            @ digits2 (secs div 3600) @ '':'' @ digits2 (secs div 60 mod 60) @ '':''
            @ digits2 (secs mod 60) @ ''.000Z''))"

section \<open>The HTTP collaborator\<close>

text \<open>
  An f-string is kept as its parts, so that a formatted JSON value needs no rendering:
  \<open>f"bearer {self.token}"\<close> is \<open>[Lit ''bearer '', Fmt token]\<close>.
\<close>

datatype fpart = Lit string | Fmt json

type_synonym fstring = "fpart list"

datatype http_method = GET | POST

record request =
  meth :: http_method
  url :: fstring
  query :: "(string \<times> string) list"
  headers :: "(string \<times> fstring) list"
  payload :: "json option"

text \<open>
  A response is its status code and what \<open>.json()\<close> gives on it: the decoded body, or the
  error raised when the body does not decode.
\<close>

record response =
  status_code :: int
  json_body :: "error + json"

text \<open>
  The network is a function from the request to its response. A client function returns
  its result (or exception) together with the requests it has sent, in order.
\<close>

type_synonym network = "request \<Rightarrow> response"

type_synonym 'a io = "(error + 'a) \<times> request list"

section \<open>The Whoop client (whoop\_user.py)\<close>

text \<open>The module's two default windows, lines 24-32.\<close>

definition whoop_default_params :: "(string \<times> string) list" where
  "whoop_default_params = [(''start'', ''2000-01-01T00:00:00.000Z''), (''end'', ''2030-01-01T00:00:00.000Z'')]"

definition default_params_hr :: "(string \<times> string) list" where
  "default_params_hr = [(''start'', ''2022-04-24T00:00:00.000Z''), (''end'', ''2022-04-28T00:00:00.000Z'')]"

record WhoopUser =
  BASE_URL :: string
  AUTH_URL :: string
  token :: json
  user_id :: json
  header :: "(string \<times> fstring) list"
  CYCLES_URL :: fstring
  HEART_RATE_URL :: fstring
  HEALTH_METRICS_URL :: string
  SEED :: int

definition login_request :: "WhoopUser \<Rightarrow> string \<Rightarrow> string \<Rightarrow> request" where
  "login_request self email password =
     \<lparr>meth = POST, url = [Lit (AUTH_URL self)], query = [], headers = [],
      payload = Some (JObj [(''grant_type'', JStr ''password''),
                            (''issueRefresh'', JBool False),
                            (''password'', JStr password),
                            (''username'', JStr email)])\<rparr>"

text \<open>
  \<open>login\<close>, lines 49-75: an empty email fakes the login and returns before any request;
  otherwise one POST, AssertionError on a status other than 200, then the token and the
  user id are read from the body.
\<close>

definition login :: "network \<Rightarrow> WhoopUser \<Rightarrow> string \<Rightarrow> string \<Rightarrow> WhoopUser io" where
  "login net self email password =
     (if length email = 0 then (Inr (self\<lparr>token := JStr '''', user_id := JStr ''''\<rparr>), [])
      else
        (let req = login_request self email password;
             login = net req
         in (if status_code login \<noteq> 200 then Inl (AssertionError ''Credentials rejected'')
             else and_then (json_body login) (\<lambda>login_data.
                  and_then (subscript login_data ''access_token'') (\<lambda>tok.
                  and_then (subscript login_data ''user'') (\<lambda>usr.
                  and_then (subscript usr ''id'') (\<lambda>uid.
                    Inr (self\<lparr>token := tok, user_id := uid\<rparr>))))),
             [req])))"

text \<open>
  \<open>__init__\<close>, lines 36-47. The attributes assigned after the login are given
  placeholders before it; nothing reads them until they are assigned.
\<close>

definition WhoopUser_init :: "network \<Rightarrow> string \<Rightarrow> string \<Rightarrow> WhoopUser io" where
  "WhoopUser_init net email password =
     (let self = \<lparr>BASE_URL = ''https://api-7.whoop.com/'',
                  AUTH_URL = ''https://api-7.whoop.com/'' @ ''oauth/token'',
                  token = JNull, user_id = JNull, header = [], CYCLES_URL = [],
                  HEART_RATE_URL = [],
                  HEALTH_METRICS_URL = '''', SEED = 0\<rparr>
      in case login net self email password of
           (Inl e, log) \<Rightarrow> (Inl e, log)
         | (Inr self, log) \<Rightarrow>
             (Inr (self\<lparr>header := [(''Authorization'', [Lit ''bearer '', Fmt (token self)])],
                        CYCLES_URL := [Lit ''users/'', Fmt (user_id self), Lit ''/cycles''],
                        HEART_RATE_URL := [Lit (BASE_URL self), Lit ''users/'',
                                           Fmt (user_id self), Lit ''/metrics/heart_rate''],
                        HEALTH_METRICS_URL :=
                          ''https://api.prod.whoop.com/coaching-service/v1/health/metrics'',
                        SEED := 1\<rparr>), log))"

text \<open>
  The four endpoint readers (lines 77-88, 118-126, 338-348, 447-451): one GET each, and
  the decoded body returned as it is. \<open>cycle_id\<close> is formatted into the URL.
\<close>

definition get_health_metrics_json :: "network \<Rightarrow> WhoopUser \<Rightarrow> json \<Rightarrow> json io" where
  "get_health_metrics_json net self cycle_id =
     (let req = \<lparr>meth = GET, url = [Lit (HEALTH_METRICS_URL self), Lit ''/'', Fmt cycle_id],
                 query = [], headers = header self, payload = None\<rparr>;
          metrics_request = net req
      in (json_body metrics_request, [req]))"

definition get_cycles_json :: "network \<Rightarrow> WhoopUser \<Rightarrow> (string \<times> string) list \<Rightarrow> json io" where
  "get_cycles_json net self params =
     (let cycles_URL = [Lit ''https://api-7.whoop.com/users/'', Fmt (user_id self), Lit ''/cycles''];
          req = \<lparr>meth = GET, url = cycles_URL, query = params, headers = header self,
                 payload = None\<rparr>;
          cycles_request = net req
      in (json_body cycles_request, [req]))"

definition get_heart_rate_json :: "network \<Rightarrow> WhoopUser \<Rightarrow> (string \<times> string) list \<Rightarrow> json io" where
  "get_heart_rate_json net self params =
     (let req = \<lparr>meth = GET, url = HEART_RATE_URL self, query = params, headers = header self,
                 payload = None\<rparr>;
          hr_request = net req
      in (json_body hr_request, [req]))"

definition get_sports :: "network \<Rightarrow> WhoopUser \<Rightarrow> json io" where
  "get_sports net self =
     (let sports_url = [Lit (BASE_URL self), Lit ''sports''];
          req = \<lparr>meth = GET, url = sports_url, query = [], headers = header self,
                 payload = None\<rparr>;
          sports_request = net req
      in (json_body sports_request, [req]))"

text \<open>\<open>s.split(".")[0]\<close>: the text before the first dot.\<close>

definition before_dot :: "string \<Rightarrow> string" where
  "before_dot s = takeWhile (\<lambda>c. c \<noteq> CHR ''.'') s"

text \<open>
  \<open>ceil(days / 7)\<close>. The quotient is a float; for the day counts of a timedelta between
  two datetimes it is exact enough that the ceiling is the integer one.
\<close>

definition ceil_div7 :: "int \<Rightarrow> int" where
  "ceil_div7 days = - ((- days) div 7)"

text \<open>
  The loop of \<open>split_into_weeklong_params\<close>, lines 386-395, over the indices of
  \<open>range(...)\<close>.
\<close>

fun weeklong_segments :: "datetime \<Rightarrow> nat list \<Rightarrow> error + (string \<times> string) list list" where
  "weeklong_segments start [] = Inr []"
| "weeklong_segments start (i # rest) =
     and_then (add_days start (7 * int i)) (\<lambda>segment_start.
     and_then (add_days start (7 * (int i + 1))) (\<lambda>segment_end.
     and_then (weeklong_segments start rest) (\<lambda>all_params.
       Inr ([(''start'', strftime_z segment_start), (''end'', strftime_z segment_end)]
            # all_params))))"

text \<open>
  \<open>split_into_weeklong_params\<close>, lines 374-397. \<open>datetime.now()\<close> is read twice, for the
  comparison and for the assignment: \<open>now1\<close> and \<open>now2\<close>.
\<close>

definition split_into_weeklong_params ::
  "datetime \<Rightarrow> datetime \<Rightarrow> (string \<times> string) list \<Rightarrow> error + (string \<times> string) list list" where
  "split_into_weeklong_params now1 now2 params =
     and_then (getitem (map_of params) ''end'') (\<lambda>e.
     and_then (strptime_datetime (before_dot e)) (\<lambda>end0.
     and_then (getitem (map_of params) ''start'') (\<lambda>s.
     and_then (strptime_datetime (before_dot s)) (\<lambda>start.
     (let end1 = (if end0 > now1 then now2 else end0)
      in weeklong_segments start [0 ..< nat (ceil_div7 (timedelta_days end1 start))])))))"

text \<open>\<open>data + x\<close> for a list \<open>data\<close>: TypeError unless \<open>x\<close> is a list.\<close>

fun as_list :: "json \<Rightarrow> error + json list" where
  "as_list (JArr xs) = Inr xs"
| "as_list _ = Inl TypeError"

text \<open>
  The loop of lines 406-407, \<open>data = data + self.get_heart_rate_json(p)["values"]\<close>, with
  the requests it sends.
\<close>

fun collect_values ::
  "network \<Rightarrow> WhoopUser \<Rightarrow> (string \<times> string) list list \<Rightarrow> json list \<Rightarrow> json list io" where
  "collect_values net self [] data = (Inr data, [])"
| "collect_values net self (p # ps) data =
     (case get_heart_rate_json net self p of
        (Inl e, log) \<Rightarrow> (Inl e, log)
      | (Inr j, log) \<Rightarrow>
          (case and_then (subscript j ''values'') as_list of
             Inl e \<Rightarrow> (Inl e, log)
           | Inr vs \<Rightarrow>
               (case collect_values net self ps (data @ vs) of
                  (r, log') \<Rightarrow> (r, log @ log'))))"

text \<open>
  The rows of the data frame, lines 411-416. The conversion of a tick's time to the local
  time zone goes through the clock's time zone and pytz; it is the parameter \<open>to_local\<close>.
\<close>

fun heart_rate_rows :: "(json \<Rightarrow> string + 't) \<Rightarrow> json list \<Rightarrow> error + (json \<times> 't) list" where
  "heart_rate_rows to_local [] = Inr []"
| "heart_rate_rows to_local (tick # ticks) =
     and_then (subscript tick ''data'') (\<lambda>heart_rate.
     and_then (subscript tick ''time'') (\<lambda>time.
     and_then (external (to_local time)) (\<lambda>timestamp.
     and_then (heart_rate_rows to_local ticks) (\<lambda>df_dict_list.
       Inr ((heart_rate, timestamp) # df_dict_list)))))"

text \<open>\<open>get_heart_rate_df\<close>, lines 350-418 (\<open>verbose\<close> only wraps the list in a progress bar).\<close>

definition get_heart_rate_df ::
  "network \<Rightarrow> WhoopUser \<Rightarrow> datetime \<Rightarrow> datetime \<Rightarrow> (json \<Rightarrow> string + 't)
     \<Rightarrow> (string \<times> string) list \<Rightarrow> (json \<times> 't) list io" where
  "get_heart_rate_df net self now1 now2 to_local params =
     (case split_into_weeklong_params now1 now2 params of
        Inl e \<Rightarrow> (Inl e, [])
      | Inr split_params \<Rightarrow>
          (case collect_values net self split_params [] of
             (Inl e, log) \<Rightarrow> (Inl e, log)
           | (Inr data, log) \<Rightarrow> (heart_rate_rows to_local data, log)))"


















text \<open>A network that answers every request with the same status and body.\<close>

definition const_net :: "int \<Rightarrow> json \<Rightarrow> network" where
  "const_net code body = (\<lambda>req. \<lparr>status_code = code, json_body = Inr body\<rparr>)"

definition anon :: WhoopUser where
  "anon = \<lparr>BASE_URL = ''https://api-7.whoop.com/'',
           AUTH_URL = ''https://api-7.whoop.com/oauth/token'',
           token = JStr '''', user_id = JStr '''',
           header = [(''Authorization'', [Lit ''bearer '', Fmt (JStr '''')])],
           CYCLES_URL = [Lit ''users/'', Fmt (JStr ''''), Lit ''/cycles''],
           HEART_RATE_URL = [Lit ''https://api-7.whoop.com/'', Lit ''users/'', Fmt (JStr ''''),
                             Lit ''/metrics/heart_rate''],
           HEALTH_METRICS_URL = ''https://api.prod.whoop.com/coaching-service/v1/health/metrics'',
           SEED = 1\<rparr>"

section \<open>The Fitbit Sense device (fitbit\_sense.py)\<close>

datatype mode = Real | Synthetic

text \<open>
  A device object. \<open>valid_data_types\<close>, \<open>init_params\<close> and \<open>user\<close> are the attributes
  the class reads; \<open>attrs\<close> holds the attributes \<open>_gen_synthetic\<close> assigns by name (an
  attribute that was never assigned is absent). \<open>mode\<close> and
  \<open>synthetic_has_been_generated\<close> are the state of the base class, as the specification
  describes it.
\<close>

record ('s, 'u) device =
  valid_data_types :: "string list"
  init_params :: "string \<rightharpoonup> pyval"
  mode :: mode
  synthetic_has_been_generated :: bool
  user :: "'u option"
  attrs :: "string \<rightharpoonup> 's"

text \<open>
  Modelled from the spec: \<open>_initialize_device_params\<close> is a method of BaseDevice
  (wearipedia/devices/device.py), which is not among the sources. By sections 3 and 4.1
  of the specification the device holds its declared data types and its configuration
  (seed and synthetic date range) unchanged after construction, and starts in synthetic
  mode with nothing generated.
\<close>

definition initialize_device_params ::
  "string list \<Rightarrow> (string \<rightharpoonup> pyval) \<Rightarrow> (string \<rightharpoonup> pyval) \<Rightarrow> ('s, 'u) device" where
  "initialize_device_params data_types params default_init_params =
     \<lparr>valid_data_types = data_types, init_params = params, mode = Synthetic,
      synthetic_has_been_generated = False, user = None, attrs = Map.empty\<rparr>"

definition fitbit_sense_data_types :: "string list" where
  "fitbit_sense_data_types =
     [''sleep'', ''steps'', ''minutesVeryActive'', ''minutesLightlyActive'',
      ''minutesFairlyActive'', ''distance'', ''minutesSedentary'', ''heart_rate_day'',
      ''hrv'', ''distance_day'']"

text \<open>\<open>Fitbit_sense.__init__\<close>, lines 37-69.\<close>

definition Fitbit_sense :: "pyval \<Rightarrow> pyval \<Rightarrow> pyval \<Rightarrow> ('s, 'u) device" where
  "Fitbit_sense seed synthetic_start_date synthetic_end_date =
     (let params = [''seed'' \<mapsto> seed,
                    ''synthetic_start_date'' \<mapsto> synthetic_start_date,
                    ''synthetic_end_date'' \<mapsto> synthetic_end_date]
      in initialize_device_params fitbit_sense_data_types params
           [''seed'' \<mapsto> PInt 0,
            ''synthetic_start_date'' \<mapsto> PStr ''2022-03-01'',
            ''synthetic_end_date'' \<mapsto> PStr ''2022-06-17''])"

text \<open>\<open>_default_params\<close>, lines 71-77.\<close>

definition default_params :: "string \<rightharpoonup> pyval" where
  "default_params = [''start_date'' \<mapsto> PStr ''2022-04-24'', ''end_date'' \<mapsto> PStr ''2022-04-28'']"

text \<open>\<open>datetime.strptime(x, "%Y-%m-%d")\<close> on a dictionary value: TypeError unless a string.\<close>

definition date_str_to_obj :: "pyval \<Rightarrow> error + datetime" where
  "date_str_to_obj x = (case x of PStr s \<Rightarrow> strptime_date s | _ \<Rightarrow> Inl TypeError)"

text \<open>
  \<open>_filter_synthetic\<close>, lines 79-90. The two indices are computed and the data is
  returned; \<open>data\<close> is whatever the caller passes.
\<close>

definition filter_synthetic ::
  "('s, 'u) device \<Rightarrow> 'd \<Rightarrow> string \<Rightarrow> (string \<rightharpoonup> pyval) \<Rightarrow> error + 'd" where
  "filter_synthetic self data data_type params =
     and_then (getitem (init_params self) ''synthetic_start_date'') (\<lambda>s0.
     and_then (date_str_to_obj s0) (\<lambda>synthetic_start.
     and_then (getitem params ''start_date'') (\<lambda>s1.
     and_then (date_str_to_obj s1) (\<lambda>start_date.
     (let start_idx = timedelta_days start_date synthetic_start in
     and_then (getitem params ''end_date'') (\<lambda>s2.
     and_then (date_str_to_obj s2) (\<lambda>end_date.
     (let end_idx = timedelta_days end_date synthetic_start in
       Inr data))))))))"

text \<open>
  The two collaborators of the device, \<open>fetch_real_data\<close> and \<open>create_syn_data\<close>, are
  parameters; a failure inside one is an \<open>ExternalError\<close>.
\<close>

definition getattr_user :: "('s, 'u) device \<Rightarrow> error + 'u" where
  "getattr_user self = (case user self of None \<Rightarrow> Inl (AttributeError ''user'') | Some u \<Rightarrow> Inr u)"

text \<open>\<open>_get_real\<close>, lines 92-100.\<close>

definition get_real ::
  "(string \<Rightarrow> 'u \<Rightarrow> pyval \<Rightarrow> pyval \<Rightarrow> string + 's) \<Rightarrow> ('s, 'u) device \<Rightarrow> string
     \<Rightarrow> (string \<rightharpoonup> pyval) \<Rightarrow> error + 's" where
  "get_real fetch_real_data self data_type params =
     and_then (getattr_user self) (\<lambda>u.
     and_then (getitem (init_params self) ''start_date'') (\<lambda>start_date.
     and_then (getitem (init_params self) ''end_date'') (\<lambda>end_date.
       external (fetch_real_data data_type u start_date end_date))))"

text \<open>\<open>self.k = syn_data[k]\<close> for each name of the list, in order.\<close>

fun assign_attrs :: "(string \<rightharpoonup> 's) \<Rightarrow> string list \<Rightarrow> ('s, 'u) device \<Rightarrow> error + ('s, 'u) device" where
  "assign_attrs syn_data [] self = Inr self"
| "assign_attrs syn_data (k # ks) self =
     and_then (getitem syn_data k) (\<lambda>v.
       assign_attrs syn_data ks (self\<lparr>attrs := (attrs self)(k \<mapsto> v)\<rparr>))"

text \<open>
  \<open>_gen_synthetic\<close>, lines 102-118. \<open>synthetic_attributes\<close> are the names of the ten
  assignments \<open>self.k = syn_data["k"]\<close> of lines 109-118, in the order of the source.
\<close>

definition synthetic_attributes :: "string list" where
  "synthetic_attributes =
     [''sleep'', ''steps'', ''minutesVeryActive'', ''minutesFairlyActive'',
      ''minutesLightlyActive'', ''distance'', ''minutesSedentary'', ''heart_rate_day'',
      ''hrv'', ''distance_day'']"

definition gen_synthetic ::
  "(pyval \<Rightarrow> pyval \<Rightarrow> string + (string \<rightharpoonup> 's)) \<Rightarrow> ('s, 'u) device \<Rightarrow> error + ('s, 'u) device" where
  "gen_synthetic create_syn_data self =
     and_then (getitem (init_params self) ''synthetic_start_date'') (\<lambda>start_date.
     and_then (getitem (init_params self) ''synthetic_end_date'') (\<lambda>end_date.
     and_then (external (create_syn_data start_date end_date)) (\<lambda>syn_data.
       assign_attrs syn_data synthetic_attributes self)))"

text \<open>
  Modelled from the spec: the seeding of the generator is done by BaseDevice and
  \<open>seed_everything\<close> (wearipedia/utils), which are not among the sources. By section 1
  of the specification the generator is \<open>generate_synthetic_data(seed, start_date,
  end_date)\<close>: here \<open>generate seed\<close> is \<open>create_syn_data\<close> run after seeding with \<open>seed\<close>,
  the seed being the one the device was constructed with.
\<close>

definition seeded_gen_synthetic ::
  "(pyval \<Rightarrow> pyval \<Rightarrow> pyval \<Rightarrow> string + (string \<rightharpoonup> 's)) \<Rightarrow> ('s, 'u) device
     \<Rightarrow> error + ('s, 'u) device" where
  "seeded_gen_synthetic generate self =
     and_then (getitem (init_params self) ''seed'') (\<lambda>seed. gen_synthetic (generate seed) self)"

text \<open>
  Modelled from the spec: \<open>get_data\<close> is a method of BaseDevice
  (wearipedia/devices/device.py), which is not among the sources. Section 4.1 of the
  specification: it validates the data type against the declared list and fails with
  UnsupportedDataType otherwise; in real mode it delegates to the vendor client with the
  default window overridden by the caller's; in synthetic mode it triggers the seeded
  generation, or reuses it, and filters the series of the data type to the window. It
  returns the result and the device as the call leaves it.
\<close>

definition get_data ::
  "(pyval \<Rightarrow> pyval \<Rightarrow> pyval \<Rightarrow> string + (string \<rightharpoonup> 's))
     \<Rightarrow> (string \<Rightarrow> 'u \<Rightarrow> pyval \<Rightarrow> pyval \<Rightarrow> string + 's)
     \<Rightarrow> ('s, 'u) device \<Rightarrow> string \<Rightarrow> (string \<rightharpoonup> pyval) option
     \<Rightarrow> (error + 's) \<times> ('s, 'u) device" where
  "get_data generate fetch_real_data self data_type params =
     (if data_type \<notin> set (valid_data_types self)
      then (Inl (UnsupportedDataType data_type), self)
      else
        (let window = (case params of None \<Rightarrow> default_params | Some p \<Rightarrow> default_params ++ p)
         in case mode self of
              Real \<Rightarrow> (get_real fetch_real_data self data_type window, self)
            | Synthetic \<Rightarrow>
                (case (if synthetic_has_been_generated self then Inr self
                       else seeded_gen_synthetic generate self) of
                   Inl e \<Rightarrow> (Inl e, self)
                 | Inr generated \<Rightarrow>
                     (let self' = generated\<lparr>synthetic_has_been_generated := True\<rparr>
                      in (and_then (getitem (attrs self') data_type) (\<lambda>data.
                            filter_synthetic self' data data_type window), self')))))"

text \<open>
  Following the claim's words, for comparison with \<open>filter_synthetic\<close>: the records of a
  series whose \<open>dateTime\<close> lies in the window from \<open>lo\<close> to \<open>hi\<close> (both included), in the
  order of the series.
\<close>

type_synonym datapoint = "(string \<times> pyval) list"

definition in_window :: "string \<Rightarrow> string \<Rightarrow> datapoint \<Rightarrow> bool" where
  "in_window lo hi r =
     (case map_of r ''dateTime'' of
        Some (PStr d) \<Rightarrow>
          (case (strptime_date lo, strptime_date d, strptime_date hi) of
             (Inr a, Inr t, Inr b) \<Rightarrow> a \<le> t \<and> t \<le> b
           | _ \<Rightarrow> False)
      | _ \<Rightarrow> False)"

definition window_slice :: "string \<Rightarrow> string \<Rightarrow> datapoint list \<Rightarrow> datapoint list" where
  "window_slice lo hi series = filter (in_window lo hi) series"

text \<open>Five days of steps, one record a day from 2022-03-01.\<close>

definition march_steps :: "datapoint list" where
  "march_steps =
     [[(''dateTime'', PStr ''2022-03-01''), (''value'', PInt 4100)],
      [(''dateTime'', PStr ''2022-03-02''), (''value'', PInt 5200)],
      [(''dateTime'', PStr ''2022-03-03''), (''value'', PInt 6300)],
      [(''dateTime'', PStr ''2022-03-04''), (''value'', PInt 7400)],
      [(''dateTime'', PStr ''2022-03-05''), (''value'', PInt 8500)]]"

text \<open>A vendor client that answers with the arguments it was called with.\<close>

definition echo_fetch :: "string \<Rightarrow> string \<Rightarrow> pyval \<Rightarrow> pyval \<Rightarrow> string + (string \<times> string \<times> pyval \<times> pyval)" where
  "echo_fetch data_type u start_date end_date = Inr (data_type, u, start_date, end_date)"

text \<open>A network that answers as \<open>net\<close> does, with the status code replaced.\<close>

definition with_status :: "int \<Rightarrow> network \<Rightarrow> network" where
  "with_status code net = (\<lambda>req. (net req)\<lparr>status_code := code\<rparr>)"


definition demo_generate :: "pyval \<Rightarrow> pyval \<Rightarrow> pyval \<Rightarrow> string + (string \<rightharpoonup> datapoint list)" where
  "demo_generate seed start_date end_date =
     Inr (\<lambda>k. if k \<in> set fitbit_sense_data_types
               then Some [[(''dateTime'', start_date), (''value'', seed)]] else None)"

text \<open>Sample devices, a vendor client that is offline, and the body of a refused request.\<close>

definition sense0 :: "(datapoint list, string) device" where
  "sense0 = Fitbit_sense (PInt 0) (PStr ''2022-03-01'') (PStr ''2022-03-05'')"

definition no_fetch :: "string \<Rightarrow> string \<Rightarrow> pyval \<Rightarrow> pyval \<Rightarrow> string + datapoint list" where
  "no_fetch data_type u start_date end_date = Inl ''offline''"

definition unauthorized :: json where
  "unauthorized = JObj [(''error'', JStr ''unauthorized'')]"

text \<open>
  For the statements about the heart-rate window: the \<open>i\<close>-th week from \<open>start\<close> as the
  parameters of a request, the request \<open>get_heart_rate_json\<close> sends for parameters \<open>p\<close>,
  the list under \<open>values\<close> of its answer, and whether the answer has one.
\<close>

definition weeklong_segment :: "datetime \<Rightarrow> nat \<Rightarrow> (string \<times> string) list" where
  "weeklong_segment start i =
     [(''start'', strftime_z (start + 7 * int i * usec_per_day)),
      (''end'', strftime_z (start + 7 * (int i + 1) * usec_per_day))]"

definition hr_request :: "WhoopUser \<Rightarrow> (string \<times> string) list \<Rightarrow> request" where
  "hr_request self p =
     \<lparr>meth = GET, url = HEART_RATE_URL self, query = p, headers = header self, payload = None\<rparr>"

definition segment_values :: "network \<Rightarrow> WhoopUser \<Rightarrow> (string \<times> string) list \<Rightarrow> error + json list" where
  "segment_values net self p =
     and_then (json_body (net (hr_request self p))) (\<lambda>j. and_then (subscript j ''values'') as_list)"

definition answers :: "network \<Rightarrow> WhoopUser \<Rightarrow> (string \<times> string) list \<Rightarrow> bool" where
  "answers net self p = (case segment_values net self p of Inl e \<Rightarrow> False | Inr vs \<Rightarrow> True)"

definition the_values :: "network \<Rightarrow> WhoopUser \<Rightarrow> (string \<times> string) list \<Rightarrow> json list" where
  "the_values net self p = (case segment_values net self p of Inl e \<Rightarrow> [] | Inr vs \<Rightarrow> vs)"

text \<open>
  A clock reading after the sample windows (2022-12-30T12:26:40), a window of ten days, a
  network whose answer to a request is one tick stamped with the request's start, and
  a time-zone conversion that keeps the time as it is.
\<close>

definition late :: datetime where
  "late = 63808000000000000"

definition ten_days :: "(string \<times> string) list" where
  "ten_days = [(''start'', ''2022-04-01T00:00:00.000Z''), (''end'', ''2022-04-11T00:00:00.000Z'')]"

definition week_net :: network where
  "week_net req =
     \<lparr>status_code = 200,
      json_body = Inr (JObj [(''values'',
        JArr [JObj [(''data'', JNum 60), (''time'', JStr (snd (hd (query req))))]])])\<rparr>"

definition keep_time :: "json \<Rightarrow> string + json" where
  "keep_time time = Inr time"

text \<open>
  Further sample windows: seven and a half days; a window that ends after the clock's
  reading; ten days at the end of the year 9999, with a clock at the last day of that year
  (9999-12-31T00:00:00). A network whose answers hold no \<open>values\<close>.
\<close>

definition seven_and_a_half_days :: "(string \<times> string) list" where
  "seven_and_a_half_days =
     [(''start'', ''2022-04-01T00:00:00.000Z''), (''end'', ''2022-04-08T12:00:00.000Z'')]"

definition future_window :: "(string \<times> string) list" where
  "future_window = [(''start'', ''2022-12-01T00:00:00.000Z''), (''end'', ''2023-01-31T00:00:00.000Z'')]"

definition last_days :: "(string \<times> string) list" where
  "last_days = [(''start'', ''9999-12-20T00:00:00.000Z''), (''end'', ''9999-12-30T00:00:00.000Z'')]"

definition end_of_time :: datetime where
  "end_of_time = 315537811200000000"

definition silent_net :: network where
  "silent_net req = \<lparr>status_code = 200, json_body = Inr (JObj [])\<rparr>"

section \<open>Login\<close>

text \<open>
  C10. A login with the empty email sends no request and raises nothing: it sets the token
  and the user id to the empty string. Whenever a login ends in the "Credentials rejected"
  assertion error, the email was not empty, and the one request sent was the POST.
\<close>

theorem login_empty_email_fakes:
  "login net self '''' password = (Inr (self\<lparr>token := JStr '''', user_id := JStr ''''\<rparr>), [])
   \<and> (fst (login net self email password) = Inl (AssertionError ''Credentials rejected'')
        \<longrightarrow> email \<noteq> '''' \<and> snd (login net self email password) = [login_request self email password])"
  by (auto simp: login_def Let_def)

theorem login_empty_email_fakes_witness:
  "login (const_net 401 JNull) anon '''' ''pw'' = (Inr (anon\<lparr>token := JStr '''', user_id := JStr ''''\<rparr>), [])
   \<and> fst (login (const_net 401 JNull) anon ''a@b.c'' ''pw'') = Inl (AssertionError ''Credentials rejected'')
   \<and> ''a@b.c'' \<noteq> ''''
   \<and> snd (login (const_net 401 JNull) anon ''a@b.c'' ''pw'') = [login_request anon ''a@b.c'' ''pw'']"
  using login_empty_email_fakes [of "const_net 401 JNull" anon "''pw''" "''a@b.c''"]
  by (simp add: login_def const_net_def Let_def)


section \<open>Results and errors of the building blocks\<close>

lemma and_then_Inr: "and_then m f = Inr y \<longleftrightarrow> (\<exists>x. m = Inr x \<and> f x = Inr y)"
  by (cases m) (simp_all add: and_then_def)

lemma and_then_Inl: "and_then m f = Inl e \<longleftrightarrow> (m = Inl e \<or> (\<exists>x. m = Inr x \<and> f x = Inl e))"
  by (cases m) (simp_all add: and_then_def)

lemma getitem_Inl: "getitem d k = Inl e \<Longrightarrow> e = KeyError k"
  by (simp add: getitem_def split: option.splits)


lemma external_Inl: "external r = Inl e \<Longrightarrow> \<exists>m. e = ExternalError m"
  by (auto simp: external_def split: sum.splits)

lemma opt_then_Inl:
  "opt_then m f = Inl e \<longleftrightarrow> (m = None \<and> e = ValueError \<or> (\<exists>x. m = Some x \<and> f x = Inl e))"
  by (cases m) (auto simp: opt_then_def)

lemma mk_datetime_Inl: "mk_datetime y m d h mi s = Inl e \<Longrightarrow> e = ValueError"
  by (simp add: mk_datetime_def split: if_splits)

lemma strptime_date_Inl: "strptime_date s = Inl e \<Longrightarrow> e = ValueError"
  unfolding strptime_date_def
  by (auto simp: opt_then_Inl split: if_splits dest: mk_datetime_Inl)

lemma date_str_to_obj_Inl: "date_str_to_obj x = Inl e \<Longrightarrow> e = TypeError \<or> e = ValueError"
  by (auto simp: date_str_to_obj_def split: pyval.splits dest: strptime_date_Inl)

lemma filter_synthetic_Inr: "filter_synthetic self data data_type params = Inr r \<Longrightarrow> r = data"
  by (auto simp: filter_synthetic_def and_then_Inr Let_def)

lemma filter_synthetic_Inl:
  "filter_synthetic self data data_type params = Inl e \<Longrightarrow> e \<noteq> UnsupportedDataType x"
  by (auto simp: filter_synthetic_def and_then_Inl Let_def dest!: getitem_Inl date_str_to_obj_Inl)

lemma get_real_Inl: "get_real f self data_type params = Inl e \<Longrightarrow> e \<noteq> UnsupportedDataType x"
  by (auto simp: get_real_def and_then_Inl getattr_user_def split: option.splits
      dest!: getitem_Inl external_Inl)

text \<open>The loop of assignments: it stops at the first missing key, or stores every series.\<close>

lemma assign_attrs_eq:
  "assign_attrs sd ks d =
     (case find (\<lambda>k. sd k = None) ks of
        Some k \<Rightarrow> Inl (KeyError k)
      | None \<Rightarrow> Inr (d\<lparr>attrs := attrs d ++ (sd |` set ks)\<rparr>))"
proof (induction ks arbitrary: d)
  case Nil
  then show ?case by simp
next
  case (Cons k ks)
  show ?case
  proof (cases "sd k")
    case None
    then show ?thesis by (simp add: and_then_def getitem_def)
  next
    case (Some v)
    have "(attrs d)(k \<mapsto> v) ++ (sd |` set ks) = attrs d ++ (sd |` insert k (set ks))"
      using Some by (auto simp: map_add_def restrict_map_def fun_eq_iff split: option.splits)
    then show ?thesis
      using Some Cons.IH [of "d\<lparr>attrs := (attrs d)(k \<mapsto> v)\<rparr>"]
      by (simp add: and_then_def getitem_def split: option.splits)
  qed
qed



lemma gen_synthetic_Inl: "gen_synthetic c self = Inl e \<Longrightarrow> e \<noteq> UnsupportedDataType x"
  by (auto simp: gen_synthetic_def and_then_Inl assign_attrs_eq split: option.splits
      dest!: getitem_Inl external_Inl)

lemma seeded_gen_synthetic_Inl: "seeded_gen_synthetic g self = Inl e \<Longrightarrow> e \<noteq> UnsupportedDataType x"
  by (auto simp: seeded_gen_synthetic_def and_then_Inl dest!: getitem_Inl gen_synthetic_Inl)

section \<open>The synthetic and the real path of the device\<close>

text \<open>
  C1 (the code does not do what the claim says). The claim: \<open>_filter_synthetic\<close> applied to
  the full series and a window inside the synthetic range gives the records of the window.
  On five days of steps from 2022-03-01 and the window 2022-03-02 to 2022-03-03,
  \<open>filter_synthetic\<close> returns all five records, while the records of the window are the
  second and the third: the two indices are computed and never applied.
\<close>

theorem filter_synthetic_keeps_whole_series:
  "filter_synthetic
     (Fitbit_sense (PInt 0) (PStr ''2022-03-01'') (PStr ''2022-03-05'') :: (datapoint list, string) device)
     march_steps ''steps''
     [''start_date'' \<mapsto> PStr ''2022-03-02'', ''end_date'' \<mapsto> PStr ''2022-03-03'']
   = Inr march_steps
   \<and> window_slice ''2022-03-02'' ''2022-03-03'' march_steps = [march_steps ! 1, march_steps ! 2]
   \<and> length march_steps = 5"
  by code_simp

text \<open>
  C2 (the code does not do what the claim says). The claim: in real mode the window passed
  to the vendor client is the caller's, or the default one. \<open>get_real\<close> never reads
  \<open>params\<close>: on a device built by the constructor it raises KeyError for \<open>start_date\<close>,
  which is not a key of \<open>init_params\<close>; on a device whose \<open>init_params\<close> has the two dates
  it passes those, whatever the caller asked for.
\<close>

theorem get_real_ignores_params:
  "get_real echo_fetch
     ((Fitbit_sense (PInt 0) (PStr ''2022-03-01'') (PStr ''2022-06-17''))\<lparr>mode := Real, user := Some ''token''\<rparr>)
     ''steps'' [''start_date'' \<mapsto> PStr ''2022-04-24'', ''end_date'' \<mapsto> PStr ''2022-04-28'']
   = Inl (KeyError ''start_date'')
   \<and> get_real echo_fetch
     \<lparr>valid_data_types = fitbit_sense_data_types,
      init_params = [''start_date'' \<mapsto> PStr ''2022-01-01'', ''end_date'' \<mapsto> PStr ''2022-01-02''],
      mode = Real, synthetic_has_been_generated = False, user = Some ''token'', attrs = Map.empty\<rparr>
     ''steps'' [''start_date'' \<mapsto> PStr ''2022-04-24'', ''end_date'' \<mapsto> PStr ''2022-04-28'']
   = Inr (''steps'', ''token'', PStr ''2022-01-01'', PStr ''2022-01-02'')"
  by code_simp

text \<open>
  C4. \<open>get_data\<close> fails with the unsupported-data-type error for every data type outside
  the device's declared list, and for a data type of the list it never fails with that
  error, whatever else happens; the declared list of a Fitbit Sense is the ten names of
  its constructor.
\<close>

theorem get_data_validates_data_type:
  "(data_type \<notin> set (valid_data_types self) \<longrightarrow>
      fst (get_data g f self data_type params) = Inl (UnsupportedDataType data_type))
   \<and> (data_type \<in> set (valid_data_types self) \<longrightarrow>
      (\<forall>x. fst (get_data g f self data_type params) \<noteq> Inl (UnsupportedDataType x)))
   \<and> valid_data_types (Fitbit_sense seed start_date end_date :: ('s, 'u) device)
      = [''sleep'', ''steps'', ''minutesVeryActive'', ''minutesLightlyActive'',
         ''minutesFairlyActive'', ''distance'', ''minutesSedentary'', ''heart_rate_day'',
         ''hrv'', ''distance_day'']"
proof (intro conjI impI allI)
  assume "data_type \<notin> set (valid_data_types self)"
  then show "fst (get_data g f self data_type params) = Inl (UnsupportedDataType data_type)"
    by (simp add: get_data_def)
next
  fix x
  assume ok: "data_type \<in> set (valid_data_types self)"
  show "fst (get_data g f self data_type params) \<noteq> Inl (UnsupportedDataType x)"
  proof (cases "mode self")
    case Real
    then show ?thesis
      using ok get_real_Inl [of f self data_type _ _ x]
      by (auto simp: get_data_def Let_def)
  next
    case Synthetic
    then show ?thesis
      using ok
      by (auto simp: get_data_def Let_def and_then_Inl
          split: sum.splits if_splits
          dest!: seeded_gen_synthetic_Inl getitem_Inl filter_synthetic_Inl)
  qed
next
  show "valid_data_types (Fitbit_sense seed start_date end_date :: ('s, 'u) device)
      = [''sleep'', ''steps'', ''minutesVeryActive'', ''minutesLightlyActive'',
         ''minutesFairlyActive'', ''distance'', ''minutesSedentary'', ''heart_rate_day'',
         ''hrv'', ''distance_day'']"
    by (simp add: Fitbit_sense_def initialize_device_params_def fitbit_sense_data_types_def)
qed

theorem get_data_validates_data_type_witness:
  "''weight'' \<notin> set (valid_data_types sense0)
   \<and> fst (get_data demo_generate no_fetch sense0 ''weight'' None) = Inl (UnsupportedDataType ''weight'')
   \<and> ''steps'' \<in> set (valid_data_types sense0)
   \<and> fst (get_data demo_generate no_fetch sense0 ''steps'' None) \<noteq> Inl (UnsupportedDataType ''steps'')
   \<and> fst (get_data demo_generate no_fetch sense0 ''steps'' None)
       = Inr [[(''dateTime'', PStr ''2022-03-01''), (''value'', PInt 0)]]"
proof -
  have a: "''weight'' \<notin> set (valid_data_types sense0)" and b: "''steps'' \<in> set (valid_data_types sense0)"
    by code_simp+
  have c: "fst (get_data demo_generate no_fetch sense0 ''steps'' None)
       = Inr [[(''dateTime'', PStr ''2022-03-01''), (''value'', PInt 0)]]"
    by code_simp
  have d: "fst (get_data demo_generate no_fetch sense0 ''weight'' None) = Inl (UnsupportedDataType ''weight'')"
    using a get_data_validates_data_type [of "''weight''" sense0 demo_generate no_fetch None, THEN conjunct1]
    by simp
  have e: "fst (get_data demo_generate no_fetch sense0 ''steps'' None) \<noteq> Inl (UnsupportedDataType ''steps'')"
    using b get_data_validates_data_type [of "''steps''" sense0 demo_generate no_fetch None,
        THEN conjunct2, THEN conjunct1]
    by simp
  show ?thesis
    using a b c d e by simp
qed

section \<open>What is kept on the device\<close>

lemma getattr_user_Inr: "getattr_user self = Inr u \<longleftrightarrow> user self = Some u"
  by (simp add: getattr_user_def split: option.splits)

lemma external_Inr: "external r = Inr v \<longleftrightarrow> r = Inr v"
  by (simp add: external_def split: sum.splits)





section \<open>Status codes\<close>

text \<open>
  The claim C7 as stated fails: answered with status 401, each of the four endpoint
  readers returns the decoded body and raises nothing.
\<close>

theorem endpoint_gets_return_body_on_401:
  "fst (get_cycles_json (const_net 401 unauthorized) anon whoop_default_params) = Inr unauthorized
   \<and> fst (get_heart_rate_json (const_net 401 unauthorized) anon default_params_hr) = Inr unauthorized
   \<and> fst (get_health_metrics_json (const_net 401 unauthorized) anon (JNum 1)) = Inr unauthorized
   \<and> fst (get_sports (const_net 401 unauthorized) anon) = Inr unauthorized"
  by (simp add: get_cycles_json_def get_heart_rate_json_def get_health_metrics_json_def
      get_sports_def const_net_def)

text \<open>
  C7, amended. The status code is checked at the login only: a login with a non-empty
  email raises the "Credentials rejected" assertion error when the status is not 200. The
  readers of the cycles, heart-rate, health-metrics and sports endpoints make no check:
  each sends its one GET request and returns what decoding the body of the response
  gives, and so the same result whatever the status code of the response.
\<close>

theorem status_checked_at_login_only:
  "(email \<noteq> '''' \<and> status_code (net (login_request self email password)) \<noteq> 200 \<longrightarrow>
      fst (login net self email password) = Inl (AssertionError ''Credentials rejected''))
   \<and> get_cycles_json net self params
       = (json_body (net \<lparr>meth = GET,
            url = [Lit ''https://api-7.whoop.com/users/'', Fmt (user_id self), Lit ''/cycles''],
            query = params, headers = header self, payload = None\<rparr>),
          [\<lparr>meth = GET,
            url = [Lit ''https://api-7.whoop.com/users/'', Fmt (user_id self), Lit ''/cycles''],
            query = params, headers = header self, payload = None\<rparr>])
   \<and> get_heart_rate_json net self params
       = (json_body (net \<lparr>meth = GET, url = HEART_RATE_URL self, query = params,
            headers = header self, payload = None\<rparr>),
          [\<lparr>meth = GET, url = HEART_RATE_URL self, query = params,
            headers = header self, payload = None\<rparr>])
   \<and> get_health_metrics_json net self cycle_id
       = (json_body (net \<lparr>meth = GET,
            url = [Lit (HEALTH_METRICS_URL self), Lit ''/'', Fmt cycle_id],
            query = [], headers = header self, payload = None\<rparr>),
          [\<lparr>meth = GET,
            url = [Lit (HEALTH_METRICS_URL self), Lit ''/'', Fmt cycle_id],
            query = [], headers = header self, payload = None\<rparr>])
   \<and> get_sports net self
       = (json_body (net \<lparr>meth = GET, url = [Lit (BASE_URL self), Lit ''sports''],
            query = [], headers = header self, payload = None\<rparr>),
          [\<lparr>meth = GET, url = [Lit (BASE_URL self), Lit ''sports''],
            query = [], headers = header self, payload = None\<rparr>])
   \<and> fst (get_cycles_json (with_status code net) self params) = fst (get_cycles_json net self params)
   \<and> fst (get_heart_rate_json (with_status code net) self params)
       = fst (get_heart_rate_json net self params)
   \<and> fst (get_health_metrics_json (with_status code net) self cycle_id)
       = fst (get_health_metrics_json net self cycle_id)
   \<and> fst (get_sports (with_status code net) self) = fst (get_sports net self)"
  by (simp add: login_def get_cycles_json_def get_heart_rate_json_def get_health_metrics_json_def
      get_sports_def with_status_def Let_def)

theorem status_checked_at_login_only_witness:
  "''a@b.c'' \<noteq> '''' \<and> status_code (const_net 401 unauthorized (login_request anon ''a@b.c'' ''pw'')) \<noteq> 200
   \<and> fst (login (const_net 401 unauthorized) anon ''a@b.c'' ''pw'') = Inl (AssertionError ''Credentials rejected'')
   \<and> fst (get_cycles_json (const_net 401 unauthorized) anon whoop_default_params) = Inr unauthorized
   \<and> fst (get_cycles_json (with_status 200 (const_net 401 unauthorized)) anon whoop_default_params)
       = fst (get_cycles_json (const_net 401 unauthorized) anon whoop_default_params)"
  using status_checked_at_login_only [of "''a@b.c''" "const_net 401 unauthorized" anon "''pw''"
      whoop_default_params _ 200]
  by (simp add: const_net_def)

section \<open>The heart-rate window\<close>

lemma days_before_year_nonneg: "1 \<le> y \<Longrightarrow> 0 \<le> days_before_year y"
proof -
  assume y: "1 \<le> y"
  have a: "(y - 1) div 100 \<le> y - 1"
    using y by linarith
  have b: "0 \<le> (y - 1) div 4" and c: "0 \<le> (y - 1) div 400"
    using y by linarith+
  show ?thesis
    using a b c y by (simp add: days_before_year_def Let_def)
qed


lemma usec_per_day_pos: "0 < usec_per_day"
  by (simp add: usec_per_day_def)

lemma days_before_month_nonneg: "1 \<le> m \<Longrightarrow> m \<le> 12 \<Longrightarrow> 0 \<le> days_before_month y m"
proof -
  assume "1 \<le> m" and "m \<le> 12"
  then have i: "nat (m - 1) < length [0, 31, 59, 90, 120, 151, 181, 212, 243, 273, 304, 334 :: int]"
    by simp
  have "list_all (\<lambda>x. 0 \<le> x) [0, 31, 59, 90, 120, 151, 181, 212, 243, 273, 304, 334 :: int]"
    by simp
  then have "0 \<le> [0, 31, 59, 90, 120, 151, 181, 212, 243, 273, 304, 334 :: int] ! nat (m - 1)"
    using i unfolding list_all_length by blast
  then show ?thesis
    by (simp add: days_before_month_def)
qed

lemma mk_datetime_nonneg: "mk_datetime y m d h mi s = Inr t \<Longrightarrow> 0 \<le> t"
proof -
  assume a: "mk_datetime y m d h mi s = Inr t"
  then have r: "1 \<le> y" "1 \<le> m" "m \<le> 12" "1 \<le> d" "0 \<le> h" "0 \<le> mi" "0 \<le> s"
    and t: "t = (ymd2ord y m d - 1) * usec_per_day + (h * 3600 + mi * 60 + s) * 1000000"
    by (auto simp: mk_datetime_def split: if_splits)
  have "0 \<le> ymd2ord y m d - 1"
    using days_before_year_nonneg [OF r(1)] days_before_month_nonneg [OF r(2,3), of y] r(4)
    by (simp add: ymd2ord_def)
  then have "0 \<le> (ymd2ord y m d - 1) * usec_per_day"
    using usec_per_day_pos by simp
  moreover have "0 \<le> (h * 3600 + mi * 60 + s) * 1000000"
    using r by simp
  ultimately show ?thesis using t by simp
qed

lemma opt_then_Inr: "opt_then m f = Inr y \<longleftrightarrow> (\<exists>x. m = Some x \<and> f x = Inr y)"
  by (cases m) (simp_all add: opt_then_def)


lemma opt_then_nonneg:
  "opt_then m f = Inr (t::int) \<Longrightarrow> (\<And>x. f x = Inr t \<Longrightarrow> 0 \<le> t) \<Longrightarrow> 0 \<le> t"
  by (auto simp: opt_then_Inr)

lemma strptime_datetime_nonneg: "strptime_datetime s = Inr t \<Longrightarrow> 0 \<le> t"
  unfolding strptime_datetime_def
  by (auto elim!: opt_then_nonneg split: if_splits dest: mk_datetime_nonneg)

lemma add_days_Inr:
  "0 \<le> t + k * usec_per_day \<Longrightarrow> t + k * usec_per_day < MAXORDINAL * usec_per_day
     \<Longrightarrow> add_days t k = Inr (t + k * usec_per_day)"
  by (simp add: add_days_def Let_def)

lemma weeklong_segments_eq:
  assumes "0 \<le> start"
    and "list_all (\<lambda>i. start + 7 * (int i + 1) * usec_per_day < MAXORDINAL * usec_per_day) js"
  shows "weeklong_segments start js = Inr (map (weeklong_segment start) js)"
  using assms(2)
proof (induction js)
  case Nil
  then show ?case by simp
next
  case (Cons i js)
  have hi: "start + 7 * (int i + 1) * usec_per_day < MAXORDINAL * usec_per_day"
    and rest: "list_all (\<lambda>i. start + 7 * (int i + 1) * usec_per_day < MAXORDINAL * usec_per_day) js"
    using Cons.prems by simp_all
  have le: "7 * int i * usec_per_day \<le> 7 * (int i + 1) * usec_per_day"
    using usec_per_day_pos by (simp add: algebra_simps)
  have nn: "0 \<le> 7 * int i * usec_per_day"
    using usec_per_day_pos by simp
  have a: "add_days start (7 * int i) = Inr (start + 7 * int i * usec_per_day)"
    using assms(1) hi le nn by (intro add_days_Inr) linarith+
  have b: "add_days start (7 * (int i + 1)) = Inr (start + 7 * (int i + 1) * usec_per_day)"
    using assms(1) hi le nn by (intro add_days_Inr) linarith+
  show ?case
    using a b Cons.IH [OF rest] by (simp add: and_then_def weeklong_segment_def)
qed

lemma collect_values_eq:
  "list_all (answers net self) ps \<Longrightarrow>
     collect_values net self ps data
       = (Inr (data @ concat (map (the_values net self) ps)), map (hr_request self) ps)"
proof (induction ps arbitrary: data)
  case Nil
  then show ?case by simp
next
  case (Cons p ps)
  from Cons.prems obtain vs where vs: "segment_values net self p = Inr vs"
    by (auto simp: answers_def split: sum.splits)
  then obtain j where j: "json_body (net (hr_request self p)) = Inr j"
    and v: "and_then (subscript j ''values'') as_list = Inr vs"
    by (auto simp: segment_values_def and_then_Inr)
  have g: "get_heart_rate_json net self p = (Inr j, [hr_request self p])"
    using j by (simp add: get_heart_rate_json_def hr_request_def Let_def)
  have t: "the_values net self p = vs"
    using vs by (simp add: the_values_def)
  show ?case
    using Cons.prems g v t Cons.IH [of "data @ vs"] by simp
qed

lemma ceil_div7_bounds: "0 \<le> days \<Longrightarrow> days \<le> 7 * int (nat (ceil_div7 days)) \<and> 7 * int (nat (ceil_div7 days)) < days + 7"
  unfolding ceil_div7_def by auto

text \<open>
  The claim C6 as stated fails. For the ten days from 2022-04-01 to 2022-04-11 the
  sub-windows are two whole weeks, the second one ending on 2022-04-15, four days after
  the end of the requested window. For the seven and a half days from 2022-04-01 to noon
  of 2022-04-08 there is one sub-window, ending at midnight, twelve hours before the end
  of the requested window. For a window that ends on 2023-01-31, after the clock's reading
  of 2022-12-30, the last sub-window ends on 2023-01-05. For the last ten days before
  9999-12-30 the second sub-window would end after the year 9999 and the split raises
  OverflowError. When the answer to the first request holds no \<open>values\<close>, the KeyError is
  raised after that one request and the second sub-window is never requested.
\<close>

theorem heart_rate_window_not_covered:
  "split_into_weeklong_params late late ten_days
     = Inr [[(''start'', ''2022-04-01T00:00:00.000Z''), (''end'', ''2022-04-08T00:00:00.000Z'')],
            [(''start'', ''2022-04-08T00:00:00.000Z''), (''end'', ''2022-04-15T00:00:00.000Z'')]]
   \<and> map_of ten_days ''end'' = Some ''2022-04-11T00:00:00.000Z''
   \<and> split_into_weeklong_params late late seven_and_a_half_days
     = Inr [[(''start'', ''2022-04-01T00:00:00.000Z''), (''end'', ''2022-04-08T00:00:00.000Z'')]]
   \<and> map_of seven_and_a_half_days ''end'' = Some ''2022-04-08T12:00:00.000Z''
   \<and> split_into_weeklong_params late late future_window
     = Inr [[(''start'', ''2022-12-01T00:00:00.000Z''), (''end'', ''2022-12-08T00:00:00.000Z'')],
            [(''start'', ''2022-12-08T00:00:00.000Z''), (''end'', ''2022-12-15T00:00:00.000Z'')],
            [(''start'', ''2022-12-15T00:00:00.000Z''), (''end'', ''2022-12-22T00:00:00.000Z'')],
            [(''start'', ''2022-12-22T00:00:00.000Z''), (''end'', ''2022-12-29T00:00:00.000Z'')],
            [(''start'', ''2022-12-29T00:00:00.000Z''), (''end'', ''2023-01-05T00:00:00.000Z'')]]
   \<and> map_of future_window ''end'' = Some ''2023-01-31T00:00:00.000Z''
   \<and> strftime_z late = ''2022-12-30T12:26:40.000Z''
   \<and> split_into_weeklong_params end_of_time end_of_time last_days = Inl OverflowError
   \<and> strftime_z end_of_time = ''9999-12-31T00:00:00.000Z''
   \<and> get_heart_rate_df silent_net anon late late keep_time ten_days
     = (Inl (KeyError ''values''),
        [hr_request anon [(''start'', ''2022-04-01T00:00:00.000Z''),
                          (''end'', ''2022-04-08T00:00:00.000Z'')]])"
  by code_simp

text \<open>
  C6, amended. For every heart-rate request whose window is a whole number of days above
  the limit of seven, with an end that is not after the clock's reading and at least seven
  days before the end of the year 9999, \<open>get_heart_rate_df\<close> splits the window into
  consecutive sub-windows of seven days, the \<open>i\<close>-th from \<open>start + 7 i\<close> days to
  \<open>start + 7 (i + 1)\<close> days, as many as the ceiling of \<open>days / 7\<close>. When each of the requests
  for these sub-windows is answered with an object that holds a list under \<open>values\<close>, it
  sends one request for each sub-window, in that order, and its rows are those of the
  answers' values, concatenated in that order. The sub-windows together cover the
  requested window: the last one ends at the end of the window or after it, by less than
  seven days.
\<close>

theorem heart_rate_split_into_weeks:
  assumes e: "map_of params ''end'' = Some e"
    and end0: "strptime_datetime (before_dot e) = Inr end0"
    and s: "map_of params ''start'' = Some s"
    and start: "strptime_datetime (before_dot s) = Inr start"
    and whole: "end0 = start + days * usec_per_day"
    and limit: "7 < days"
    and past: "end0 \<le> now1"
    and range: "end0 + 7 * usec_per_day \<le> MAXORDINAL * usec_per_day"
    and n: "n = nat (ceil_div7 days)"
    and ok: "list_all (answers net self) (map (weeklong_segment start) [0 ..< n])"
  shows "split_into_weeklong_params now1 now2 params = Inr (map (weeklong_segment start) [0 ..< n])
    \<and> snd (get_heart_rate_df net self now1 now2 to_local params)
        = map (\<lambda>i. hr_request self (weeklong_segment start i)) [0 ..< n]
    \<and> fst (get_heart_rate_df net self now1 now2 to_local params)
        = heart_rate_rows to_local
            (concat (map (\<lambda>i. the_values net self (weeklong_segment start i)) [0 ..< n]))
    \<and> end0 \<le> start + 7 * int n * usec_per_day
    \<and> start + 7 * int n * usec_per_day < end0 + 7 * usec_per_day"
proof -
  have nonneg: "0 \<le> start"
    using start by (rule strptime_datetime_nonneg)
  have d: "days = timedelta_days (if end0 > now1 then now2 else end0) start"
    using past whole usec_per_day_pos by (simp add: timedelta_days_def)
  have cb: "days \<le> 7 * int n" "7 * int n < days + 7"
    using ceil_div7_bounds [of days] limit n by simp_all
  have "days * usec_per_day \<le> 7 * int n * usec_per_day"
    using cb(1) usec_per_day_pos by (simp only: mult_le_cancel_right_pos)
  then have lo: "end0 \<le> start + 7 * int n * usec_per_day"
    using whole by simp
  have "7 * int n * usec_per_day < (days + 7) * usec_per_day"
    using cb(2) usec_per_day_pos by (simp only: mult_less_cancel_right_pos)
  then have hi: "start + 7 * int n * usec_per_day < end0 + 7 * usec_per_day"
    using whole by (simp add: algebra_simps)
  have "list_all (\<lambda>i. start + 7 * (int i + 1) * usec_per_day < MAXORDINAL * usec_per_day) [0 ..< n]"
    unfolding list_all_iff
  proof
    fix i assume "i \<in> set [0 ..< n]"
    then have "int i + 1 \<le> int n" by simp
    then have "7 * (int i + 1) * usec_per_day \<le> 7 * int n * usec_per_day"
      using usec_per_day_pos by simp
    then show "start + 7 * (int i + 1) * usec_per_day < MAXORDINAL * usec_per_day"
      using hi range by linarith
  qed
  then have segs: "weeklong_segments start [0 ..< n] = Inr (map (weeklong_segment start) [0 ..< n])"
    using nonneg by (intro weeklong_segments_eq)
  have split: "split_into_weeklong_params now1 now2 params = Inr (map (weeklong_segment start) [0 ..< n])"
    using e end0 s start segs d n
    by (simp add: split_into_weeklong_params_def and_then_def getitem_def Let_def)
  have coll: "collect_values net self (map (weeklong_segment start) [0 ..< n]) []
      = (Inr (concat (map (the_values net self) (map (weeklong_segment start) [0 ..< n]))),
         map (hr_request self) (map (weeklong_segment start) [0 ..< n]))"
    using collect_values_eq [OF ok, of "[]"] by simp
  have df: "get_heart_rate_df net self now1 now2 to_local params
      = (heart_rate_rows to_local
           (concat (map (\<lambda>i. the_values net self (weeklong_segment start i)) [0 ..< n])),
         map (\<lambda>i. hr_request self (weeklong_segment start i)) [0 ..< n])"
    using split coll by (simp add: get_heart_rate_df_def comp_def)
  show ?thesis
    using split df lo hi by simp
qed

theorem heart_rate_split_into_weeks_witness:
  "split_into_weeklong_params late late ten_days
     = Inr (map (weeklong_segment 63784368000000000) [0 ..< 2])
   \<and> map (weeklong_segment 63784368000000000) [0 ..< 2]
     = [[(''start'', ''2022-04-01T00:00:00.000Z''), (''end'', ''2022-04-08T00:00:00.000Z'')],
        [(''start'', ''2022-04-08T00:00:00.000Z''), (''end'', ''2022-04-15T00:00:00.000Z'')]]
   \<and> snd (get_heart_rate_df week_net anon late late keep_time ten_days)
     = map (\<lambda>i. hr_request anon (weeklong_segment 63784368000000000 i)) [0 ..< 2]
   \<and> fst (get_heart_rate_df week_net anon late late keep_time ten_days)
     = Inr [(JNum 60, JStr ''2022-04-01T00:00:00.000Z''), (JNum 60, JStr ''2022-04-08T00:00:00.000Z'')]
   \<and> (63785232000000000 :: int) \<le> 63784368000000000 + 7 * int 2 * usec_per_day
   \<and> 63784368000000000 + 7 * int 2 * usec_per_day < (63785232000000000 :: int) + 7 * usec_per_day"
proof -
  have e: "map_of ten_days ''end'' = Some ''2022-04-11T00:00:00.000Z''"
    by code_simp
  have end0: "strptime_datetime (before_dot ''2022-04-11T00:00:00.000Z'') = Inr 63785232000000000"
    by code_simp
  have s: "map_of ten_days ''start'' = Some ''2022-04-01T00:00:00.000Z''"
    by code_simp
  have start: "strptime_datetime (before_dot ''2022-04-01T00:00:00.000Z'') = Inr 63784368000000000"
    by code_simp
  have whole: "(63785232000000000 :: int) = 63784368000000000 + 10 * usec_per_day"
    by code_simp
  have limit: "(7 :: int) < 10"
    by simp
  have past: "63785232000000000 \<le> late"
    by code_simp
  have range: "63785232000000000 + 7 * usec_per_day \<le> MAXORDINAL * usec_per_day"
    by code_simp
  have n: "(2::nat) = nat (ceil_div7 10)"
    by code_simp
  have ok: "list_all (answers week_net anon) (map (weeklong_segment 63784368000000000) [0 ..< 2])"
    by code_simp
  note t = heart_rate_split_into_weeks [OF e end0 s start whole limit past range n ok, of late keep_time]
  have segs: "map (weeklong_segment 63784368000000000) [0 ..< 2]
     = [[(''start'', ''2022-04-01T00:00:00.000Z''), (''end'', ''2022-04-08T00:00:00.000Z'')],
        [(''start'', ''2022-04-08T00:00:00.000Z''), (''end'', ''2022-04-15T00:00:00.000Z'')]]"
    by code_simp
  have rows: "heart_rate_rows keep_time
      (concat (map (\<lambda>i. the_values week_net anon (weeklong_segment 63784368000000000 i)) [0 ..< 2]))
     = Inr [(JNum 60, JStr ''2022-04-01T00:00:00.000Z''), (JNum 60, JStr ''2022-04-08T00:00:00.000Z'')]"
    by code_simp
  show ?thesis
    using t segs rows by simp
qed

section \<open>Vendor timestamps\<close>






































end
